theory Spec2Isabelle
  imports Complex_Main
begin

section \<open>ECMAScript Number values\<close>

text \<open>
  The helpers of \<^verbatim>\<open>shared/base.js\<close> compute on ECMAScript Numbers. A Number is
  modelled with its special values spelled out: a finite value, negative zero, NaN and
  the two infinities. \<open>Fin 0\<close> is positive zero. A finite value is an exact rational:
  the rounding of a result to binary64 is not part of the model, every other rule of
  the language (propagation of NaN, the sign of a zero result, division by zero, the
  truncating remainder, the tie rule of \<^verbatim>\<open>Math.round\<close>) is. The model computes what
  the engine computes as long as the engine's results are exact, as they are on
  amounts of yen that are integers of ordinary size.
\<close>

datatype jsnum = Fin rat | NegZero | NaN | PInf | NInf

fun val :: "jsnum \<Rightarrow> rat" where
  "val (Fin q) = q"
| "val _ = 0"

fun is_neg :: "jsnum \<Rightarrow> bool" where
  "is_neg (Fin q) = (q < 0)"
| "is_neg NegZero = True"
| "is_neg NInf = True"
| "is_neg _ = False"

fun is_zero :: "jsnum \<Rightarrow> bool" where
  "is_zero (Fin q) = (q = 0)"
| "is_zero NegZero = True"
| "is_zero _ = False"

fun is_inf :: "jsnum \<Rightarrow> bool" where
  "is_inf PInf = True"
| "is_inf NInf = True"
| "is_inf _ = False"

definition zero_of :: "bool \<Rightarrow> jsnum" where
  "zero_of neg = (if neg then NegZero else Fin 0)"

definition inf_of :: "bool \<Rightarrow> jsnum" where
  "inf_of neg = (if neg then NInf else PInf)"

definition fin_of :: "bool \<Rightarrow> rat \<Rightarrow> jsnum" where
  \<comment> \<open>a finite result \<open>q\<close>; when it is zero, its sign is \<open>neg\<close>\<close>
  "fin_of neg q = (if q = 0 then zero_of neg else Fin q)"

fun js_neg :: "jsnum \<Rightarrow> jsnum" where
  "js_neg (Fin q) = fin_of True (- q)"
| "js_neg NegZero = Fin 0"
| "js_neg NaN = NaN"
| "js_neg PInf = NInf"
| "js_neg NInf = PInf"

fun js_add :: "jsnum \<Rightarrow> jsnum \<Rightarrow> jsnum" where
  "js_add NaN _ = NaN"
| "js_add _ NaN = NaN"
| "js_add PInf NInf = NaN"
| "js_add NInf PInf = NaN"
| "js_add PInf _ = PInf"
| "js_add _ PInf = PInf"
| "js_add NInf _ = NInf"
| "js_add _ NInf = NInf"
| "js_add NegZero NegZero = NegZero"
| "js_add NegZero (Fin b) = Fin b"
| "js_add (Fin a) NegZero = Fin a"
| "js_add (Fin a) (Fin b) = Fin (a + b)"

definition js_sub :: "jsnum \<Rightarrow> jsnum \<Rightarrow> jsnum" where
  "js_sub x y = js_add x (js_neg y)"

definition js_mul :: "jsnum \<Rightarrow> jsnum \<Rightarrow> jsnum" where
  "js_mul x y =
     (if x = NaN \<or> y = NaN then NaN
      else if is_inf x \<or> is_inf y then
        (if is_zero x \<or> is_zero y then NaN else inf_of (is_neg x \<noteq> is_neg y))
      else fin_of (is_neg x \<noteq> is_neg y) (val x * val y))"

definition js_div :: "jsnum \<Rightarrow> jsnum \<Rightarrow> jsnum" where
  "js_div x y =
     (if x = NaN \<or> y = NaN then NaN
      else if is_inf x then (if is_inf y then NaN else inf_of (is_neg x \<noteq> is_neg y))
      else if is_inf y then zero_of (is_neg x \<noteq> is_neg y)
      else if is_zero y then (if is_zero x then NaN else inf_of (is_neg x \<noteq> is_neg y))
      else fin_of (is_neg x \<noteq> is_neg y) (val x / val y))"

definition trunc :: "rat \<Rightarrow> int" where
  "trunc q = (if 0 \<le> q then \<lfloor>q\<rfloor> else \<lceil>q\<rceil>)"

definition js_mod :: "jsnum \<Rightarrow> jsnum \<Rightarrow> jsnum" where
  \<comment> \<open>the operator \<^verbatim>\<open>%\<close>: the remainder has the sign of the dividend\<close>
  "js_mod x y =
     (if x = NaN \<or> y = NaN \<or> is_inf x \<or> is_zero y then NaN
      else if is_inf y then x
      else if is_zero x then x
      else fin_of (is_neg x) (val x - val y * of_int (trunc (val x / val y))))"

fun js_lt :: "jsnum \<Rightarrow> jsnum \<Rightarrow> bool" where
  "js_lt NaN _ = False"
| "js_lt _ NaN = False"
| "js_lt PInf _ = False"
| "js_lt _ NInf = False"
| "js_lt NInf _ = True"
| "js_lt _ PInf = True"
| "js_lt x y = (val x < val y)"

definition js_ge :: "jsnum \<Rightarrow> jsnum \<Rightarrow> bool" where
  "js_ge x y = (x \<noteq> NaN \<and> y \<noteq> NaN \<and> \<not> js_lt x y)"

definition js_seq :: "jsnum \<Rightarrow> jsnum \<Rightarrow> bool" where
  \<comment> \<open>the operator \<^verbatim>\<open>===\<close> on Numbers\<close>
  "js_seq x y = (x \<noteq> NaN \<and> y \<noteq> NaN \<and> \<not> js_lt x y \<and> \<not> js_lt y x)"

fun Math_round :: "jsnum \<Rightarrow> jsnum" where
  "Math_round (Fin q) = (if q < 0 \<and> - (1/2) \<le> q then NegZero else Fin (of_int \<lfloor>q + 1/2\<rfloor>))"
| "Math_round x = x"

fun Math_floor :: "jsnum \<Rightarrow> jsnum" where
  "Math_floor (Fin q) = Fin (of_int \<lfloor>q\<rfloor>)"
| "Math_floor x = x"

definition Math_min :: "jsnum \<Rightarrow> jsnum \<Rightarrow> jsnum" where
  "Math_min x y =
     (if x = NaN \<or> y = NaN then NaN
      else if js_lt x y \<or> (x = NegZero \<and> y = Fin 0) then x else y)"

definition Math_max :: "jsnum \<Rightarrow> jsnum \<Rightarrow> jsnum" where
  "Math_max x y =
     (if x = NaN \<or> y = NaN then NaN
      else if js_lt y x \<or> (x = Fin 0 \<and> y = NegZero) then x else y)"

definition Math_pow :: "jsnum \<Rightarrow> nat \<Rightarrow> jsnum" where
  \<comment> \<open>\<^verbatim>\<open>Math.pow(x, n)\<close> for an exponent that is a natural number\<close>
  "Math_pow x n =
     (if n = 0 then Fin 1
      else if x = NaN then NaN
      else if is_inf x then inf_of (is_neg x \<and> odd n)
      else fin_of (is_neg x \<and> odd n) (val x ^ n))"


section \<open>Strings and the rendering of Numbers\<close>

text \<open>
  A string is a list of bytes; the characters outside ASCII that the helpers emit are
  written as their UTF-8 bytes. Concatenation and the one pattern the code matches
  (an ASCII suffix) read the same on bytes as on UTF-16 code units.
\<close>

definition oku_s :: string where
  \<comment> \<open>U+5104, the unit of 100,000,000\<close>
  "oku_s = [CHR 0xE5, CHR 0x84, CHR 0x84]"

definition man_s :: string where
  \<comment> \<open>U+4E07, the unit of 10,000\<close>
  "man_s = [CHR 0xE4, CHR 0xB8, CHR 0x87]"

definition en_s :: string where
  \<comment> \<open>U+5186, yen\<close>
  "en_s = [CHR 0xE5, CHR 0x86, CHR 0x86]"

definition inf_s :: string where
  \<comment> \<open>U+221E, how the locale renders an infinity\<close>
  "inf_s = [CHR 0xE2, CHR 0x88, CHR 0x9E]"

definition digit_char :: "nat \<Rightarrow> char" where
  "digit_char d = ''0123456789'' ! d"

fun digits :: "nat \<Rightarrow> string" where
  "digits n = (if n < 10 then [digit_char n] else digits (n div 10) @ [digit_char (n mod 10)])"

fun group3 :: "string \<Rightarrow> string" where
  \<comment> \<open>on the digits from the least significant one: a comma after every third digit
      that has a digit after it\<close>
  "group3 (a # b # c # d # rest) = a # b # c # CHR '','' # group3 (d # rest)"
| "group3 ds = ds"

definition grouped :: "nat \<Rightarrow> string" where
  "grouped n = rev (group3 (rev (digits n)))"

definition fraction3 :: "nat \<Rightarrow> string" where
  \<comment> \<open>the fraction digits of \<open>f\<close> thousandths, trailing zeros dropped\<close>
  "fraction3 f =
     (if f = 0 then []
      else ''.'' @ rev (dropWhile (\<lambda>c. c = CHR ''0'')
             (rev [digit_char (f div 100), digit_char (f div 10 mod 10), digit_char (f mod 10)])))"

definition sign_s :: "bool \<Rightarrow> string" where
  "sign_s neg = (if neg then ''-'' else [])"

fun toLocaleString :: "jsnum \<Rightarrow> string" where
  \<comment> \<open>\<^verbatim>\<open>x.toLocaleString('ja-JP')\<close>: decimal notation, groups of three digits, at most
      three fraction digits (a tie rounds away from zero), the sign kept on a zero\<close>
  "toLocaleString (Fin q) =
     (let m = nat \<lfloor>\<bar>q\<bar> * 1000 + 1/2\<rfloor>
      in sign_s (q < 0) @ grouped (m div 1000) @ fraction3 (m mod 1000))"
| "toLocaleString NegZero = ''-0''"
| "toLocaleString NaN = ''NaN''"
| "toLocaleString PInf = inf_s"
| "toLocaleString NInf = ''-'' @ inf_s"





section \<open>The helpers of shared/base.js\<close>


record parts =
  num :: string
  unit :: string

datatype error = InvalidArgument

text \<open>
  A call either returns a value (\<open>Inr\<close>) or throws (\<open>Inl\<close>). The body of
  \<^verbatim>\<open>fmtYenParts\<close> has three \<^verbatim>\<open>return\<close> statements and no \<^verbatim>\<open>throw\<close>, and none of
  the built-ins it calls throws on a Number. \<open>InvalidArgument\<close> is the error that the
  specification names for a bad amount.
\<close>

definition fmtYenParts :: "jsnum \<Rightarrow> error + parts" where
  "fmtYenParts n0 =
     (let n = Math_round n0 in
      if js_ge n (Fin 100000000) then
        (let oku = Math_floor (js_div n (Fin 100000000));
             man = Math_round (js_div (js_mod n (Fin 100000000)) (Fin 10000))
         in if js_seq man (Fin 0) then Inr \<lparr>num = toLocaleString oku, unit = oku_s @ en_s\<rparr>
            else Inr \<lparr>num = toLocaleString oku @ oku_s @ toLocaleString man,
                      unit = man_s @ en_s\<rparr>)
      else Inr \<lparr>num = toLocaleString (Math_round (js_div n (Fin 10000))),
                unit = man_s @ en_s\<rparr>)"

definition fmtYen :: "jsnum \<Rightarrow> error + string" where
  "fmtYen n = (case fmtYenParts n of Inl e \<Rightarrow> Inl e | Inr p \<Rightarrow> Inr (num p @ unit p))"



section \<open>The count-up animation\<close>

text \<open>
  \<^verbatim>\<open>animateNum(el, from, to, ms, fmt)\<close> reads the clock into \<^verbatim>\<open>t0\<close>, requests an
  animation frame for its inner function \<^verbatim>\<open>step\<close> and returns the handle of that
  request. The constants of the closure are a record; \<open>a_fmt\<close> is \<open>None\<close> for the
  default \<^verbatim>\<open>null\<close>. A formatter is a function of the value alone.
\<close>

record run =
  a_from :: jsnum
  a_to :: jsnum
  a_ms :: jsnum
  a_fmt :: "(jsnum \<Rightarrow> string) option"
  a_t0 :: jsnum

text \<open>
  The host as far as one run sees it: the counter of frame request handles, the
  handles of the requests for \<^verbatim>\<open>step\<close> that are neither run nor cancelled, the text of
  the element, every text assigned to it in order, and the variable \<^verbatim>\<open>rafId\<close> of the
  closure.
\<close>

record host =
  next_id :: nat
  pending :: "nat list"
  textContent :: string
  writes :: "string list"
  rafId :: nat

definition host0 :: host where
  "host0 = \<lparr>next_id = 1, pending = [], textContent = [], writes = [], rafId = 0\<rparr>"

definition requestAnimationFrame :: "host \<Rightarrow> nat \<times> host" where
  "requestAnimationFrame s =
     (next_id s, s\<lparr>next_id := Suc (next_id s), pending := pending s @ [next_id s]\<rparr>)"

definition cancelAnimationFrame :: "nat \<Rightarrow> host \<Rightarrow> host" where
  "cancelAnimationFrame h s = s\<lparr>pending := removeAll h (pending s)\<rparr>"

definition progress :: "run \<Rightarrow> jsnum \<Rightarrow> jsnum" where
  \<comment> \<open>\<^verbatim>\<open>p = Math.min((now - t0) / ms, 1)\<close>\<close>
  "progress r now = Math_min (js_div (js_sub now (a_t0 r)) (a_ms r)) (Fin 1)"

definition ease_of :: "jsnum \<Rightarrow> jsnum" where
  \<comment> \<open>\<^verbatim>\<open>ease = 1 - Math.pow(1 - p, 4)\<close>\<close>
  "ease_of p = js_sub (Fin 1) (Math_pow (js_sub (Fin 1) p) 4)"

definition cur_of :: "run \<Rightarrow> jsnum \<Rightarrow> jsnum" where
  \<comment> \<open>\<^verbatim>\<open>cur = Math.round(from + (to - from) * ease)\<close>\<close>
  "cur_of r now =
     Math_round (js_add (a_from r) (js_mul (js_sub (a_to r) (a_from r)) (ease_of (progress r now))))"

definition text_of :: "run \<Rightarrow> jsnum \<Rightarrow> string" where
  \<comment> \<open>\<^verbatim>\<open>fmt ? fmt(cur) : cur.toLocaleString('ja-JP')\<close>\<close>
  "text_of r now =
     (case a_fmt r of Some f \<Rightarrow> f (cur_of r now) | None \<Rightarrow> toLocaleString (cur_of r now))"

definition step :: "run \<Rightarrow> jsnum \<Rightarrow> host \<Rightarrow> host" where
  "step r now s =
     (let s1 = s\<lparr>textContent := text_of r now, writes := writes s @ [text_of r now]\<rparr>
      in if js_lt (progress r now) (Fin 1)
         then (let (h, s2) = requestAnimationFrame s1 in s2\<lparr>rafId := h\<rparr>)
         else s1)"

definition animateNum ::
  "jsnum \<Rightarrow> jsnum \<Rightarrow> jsnum \<Rightarrow> (jsnum \<Rightarrow> string) option \<Rightarrow> jsnum \<Rightarrow> host \<Rightarrow> nat \<times> run \<times> host" where
  \<comment> \<open>the fifth argument is what \<^verbatim>\<open>performance.now()\<close> answers; the result is the
      returned handle, the closure and the host after the call\<close>
  "animateNum frm to ms fmt clock s =
     (let r = \<lparr>a_from = frm, a_to = to, a_ms = ms, a_fmt = fmt, a_t0 = clock\<rparr>;
          (h, s1) = requestAnimationFrame s
      in (h, r, s1\<lparr>rafId := h\<rparr>))"

text \<open>
  What happens to a run afterwards: the host renders a frame at a time stamp and runs
  the callbacks requested before it, or someone calls \<^verbatim>\<open>cancelAnimationFrame\<close> with a
  handle.
\<close>

datatype event = Frame jsnum | Cancel nat

definition frame :: "run \<Rightarrow> jsnum \<Rightarrow> host \<Rightarrow> host" where
  "frame r now s = fold (\<lambda>_. step r now) (pending s) (s\<lparr>pending := []\<rparr>)"

fun exec :: "run \<Rightarrow> event list \<Rightarrow> host \<Rightarrow> host" where
  "exec r [] s = s"
| "exec r (Frame now # es) s = exec r es (frame r now s)"
| "exec r (Cancel h # es) s = exec r es (cancelAnimationFrame h s)"


section \<open>The specification's arithmetic\<close>







section \<open>Facts about the arithmetic of finite Numbers\<close>

lemma floor_rat_divide_numeral [simp]:
  "\<lfloor>numeral a / numeral b :: rat\<rfloor> = numeral a div numeral b"
  by (metis floor_divide_of_int_eq of_int_numeral)

lemma floor_rat_minus_divide_numeral [simp]:
  "\<lfloor>- (numeral a / numeral b) :: rat\<rfloor> = - numeral a div numeral b"
  by (metis divide_minus_left floor_divide_of_int_eq of_int_neg_numeral of_int_numeral)

lemma floor_rat_one_divide_numeral [simp]:
  "\<lfloor>1 / numeral b :: rat\<rfloor> = 1 div numeral b"
  by (metis floor_divide_of_int_eq of_int_1 of_int_numeral)

lemma floor_rat_minus_one_divide_numeral [simp]:
  "\<lfloor>- (1 / numeral b) :: rat\<rfloor> = - 1 div numeral b"
  by (metis divide_minus_left floor_divide_of_int_eq of_int_minus of_int_1 of_int_numeral)

lemmas js_eval = js_ge_def js_div_def js_mod_def js_seq_def js_sub_def js_mul_def
  Math_min_def Math_max_def Math_pow_def fin_of_def zero_of_def inf_of_def trunc_def
  grouped_def digit_char_def Let_def sign_s_def fraction3_def








section \<open>The yen formatter\<close>







lemma fmtYenParts_returns: "\<exists>p. fmtYenParts n = Inr p"
  by (simp add: fmtYenParts_def Let_def)

lemma fmtYenParts_low:
  "\<not> js_ge (Math_round n) (Fin 100000000) \<Longrightarrow>
   fmtYenParts n = Inr \<lparr>num = toLocaleString (Math_round (js_div (Math_round n) (Fin 10000))),
                      unit = man_s @ en_s\<rparr>"
  by (simp add: fmtYenParts_def Let_def)

lemma round_neg_low: "n = NaN \<or> is_neg n \<Longrightarrow> \<not> js_ge (Math_round n) (Fin 100000000)"
proof (cases n)
  case (Fin q)
  assume "n = NaN \<or> is_neg n"
  with Fin have q: "q < 0" by simp
  then have "\<lfloor>q + 1 / 2\<rfloor> \<le> 0"
    by (simp add: floor_le_iff)
  then have "rat_of_int \<lfloor>q + 1 / 2\<rfloor> < 100000000"
    by linarith
  with Fin show ?thesis
    by (simp add: js_ge_def)
qed (simp_all add: js_ge_def)

text \<open>
  Claim C7. \<^verbatim>\<open>fmtYen(n)\<close> is the concatenation of the \<^verbatim>\<open>num\<close> and the \<^verbatim>\<open>unit\<close> of the
  parts that \<^verbatim>\<open>fmtYenParts(n)\<close> returns, for every Number \<open>n\<close>.
\<close>

theorem fmtYen_concat:
  "\<exists>p. fmtYenParts n = Inr p \<and> fmtYen n = Inr (num p @ unit p)"
  using fmtYenParts_returns [of n] by (auto simp add: fmtYen_def)

text \<open>
  Claim C10. \<^verbatim>\<open>fmtYenParts\<close> returns parts for every Number and never throws. NaN
  and every negative input (negative zero and the negative infinity among them) take
  the branch below 100,000,000 and get the unit of 10,000 yen; for NaN the \<^verbatim>\<open>num\<close> is
  the text NaN.
\<close>

theorem fmtYenParts_total:
  "(\<exists>p. fmtYenParts n = Inr p)
   \<and> (n = NaN \<or> is_neg n \<longrightarrow> (\<exists>p. fmtYenParts n = Inr p \<and> unit p = man_s @ en_s))
   \<and> fmtYenParts NaN = Inr \<lparr>num = ''NaN'', unit = man_s @ en_s\<rparr>"
proof (intro conjI impI)
  show "\<exists>p. fmtYenParts n = Inr p"
    by (rule fmtYenParts_returns)
  show "\<exists>p. fmtYenParts n = Inr p \<and> unit p = man_s @ en_s" if "n = NaN \<or> is_neg n"
    using fmtYenParts_low [OF round_neg_low [OF that]] by simp
  show "fmtYenParts NaN = Inr \<lparr>num = ''NaN'', unit = man_s @ en_s\<rparr>"
    by (simp add: fmtYenParts_def js_ge_def js_div_def)
qed

theorem fmtYenParts_total_witness:
  "is_neg (Fin (- 5)) \<and> (\<exists>p. fmtYenParts (Fin (- 5)) = Inr p \<and> unit p = man_s @ en_s)"
  using fmtYenParts_total [of "Fin (- 5)"] by simp

text \<open>
  Claim C3 says that a negative or NaN input makes \<^verbatim>\<open>fmtYenParts\<close> fail with
  \<open>InvalidArgument\<close>. The function has no check of its argument: at \<open>-5\<close> and at NaN
  it returns parts.
\<close>

theorem fmtYenParts_rejects_counterexample:
  "fmtYenParts (Fin (- 5)) = Inr \<lparr>num = ''-0'', unit = man_s @ en_s\<rparr>
   \<and> fmtYenParts (Fin (- 5)) \<noteq> Inl InvalidArgument
   \<and> fmtYenParts NaN = Inr \<lparr>num = ''NaN'', unit = man_s @ en_s\<rparr>
   \<and> fmtYenParts NaN \<noteq> Inl InvalidArgument"
  by (simp add: fmtYenParts_def js_ge_def js_div_def zero_of_def fin_of_def)

text \<open>
  Claim C3, amended. For every negative or NaN input \<^verbatim>\<open>fmtYenParts\<close> does not fail: it
  returns the parts of the branch below 100,000,000, whose \<^verbatim>\<open>num\<close> is the rendering of
  the rounded input divided by 10,000 and rounded again, with the unit of 10,000 yen.
\<close>

theorem fmtYenParts_negative_returns:
  assumes "n = NaN \<or> is_neg n"
  shows "fmtYenParts n = Inr \<lparr>num = toLocaleString (Math_round (js_div (Math_round n) (Fin 10000))),
                             unit = man_s @ en_s\<rparr>"
  using assms by (intro fmtYenParts_low round_neg_low)

theorem fmtYenParts_negative_returns_witness:
  "is_neg (Fin (- 50000))
   \<and> fmtYenParts (Fin (- 50000)) = Inr \<lparr>num = ''-5'', unit = man_s @ en_s\<rparr>"
  using fmtYenParts_negative_returns [of "Fin (- 50000)"]
  by (simp add: js_eval)




section \<open>The axis label\<close>













section \<open>The animation: arithmetic of a tick\<close>
















section \<open>The animation: executions\<close>

lemma step_writes: "writes (step r now s) = writes s @ [text_of r now]"
  by (simp add: step_def requestAnimationFrame_def Let_def)

lemma step_textContent: "textContent (step r now s) = text_of r now"
  by (simp add: step_def requestAnimationFrame_def Let_def)











lemma exec_append: "exec r (es @ es') s = exec r es' (exec r es s)"
  by (induction r es s rule: exec.induct) simp_all

lemma fold_step_writes:
  "writes (fold (\<lambda>_. step r now) ids s) = writes s @ replicate (length ids) (text_of r now)"
  by (induction ids arbitrary: s) (simp_all add: step_writes replicate_app_Cons_same)

lemma fold_step_textContent:
  "ids \<noteq> [] \<Longrightarrow> textContent (fold (\<lambda>_. step r now) ids s) = text_of r now"
proof (induction ids arbitrary: s)
  case Nil
  then show ?case by simp
next
  case (Cons i ids)
  then show ?case
    by (cases ids) (simp_all add: step_textContent)
qed

lemma frame_fires:
  assumes "pending s \<noteq> []"
  shows "textContent (frame r now s) = text_of r now"
    and "last (writes (frame r now s)) = text_of r now"
  using assms by (simp_all add: frame_def fold_step_textContent fold_step_writes)

text \<open>
  Claim C8. The text written by a tick is a function of the closure and the time
  stamp alone. Whatever events two executions of a run have seen before (frames
  rendered, frames dropped, cancellations), if each still has a request pending, a
  frame at the time stamp \<open>now\<close> writes the same text in both, namely \<open>text_of r now\<close>.
\<close>

theorem tick_value_by_time:
  assumes "pending (exec r es1 s1) \<noteq> []" and "pending (exec r es2 s2) \<noteq> []"
  shows "textContent (exec r (es1 @ [Frame now]) s1) = text_of r now
    \<and> textContent (exec r (es2 @ [Frame now]) s2) = text_of r now
    \<and> last (writes (exec r (es1 @ [Frame now]) s1)) = text_of r now
    \<and> last (writes (exec r (es2 @ [Frame now]) s2)) = text_of r now"
  using frame_fires [OF assms(1), of r now] frame_fires [OF assms(2), of r now]
  by (simp add: exec_append)

lemmas run_eval = frame_def step_def requestAnimationFrame_def cancelAnimationFrame_def
  text_of_def cur_of_def ease_of_def progress_def host0_def power4_eq_xxxx

theorem tick_value_by_time_witness:
  "pending (exec \<lparr>a_from = Fin 0, a_to = Fin 1000, a_ms = Fin 700, a_fmt = None, a_t0 = Fin 0\<rparr>
       [] (host0\<lparr>next_id := 2, pending := [1], rafId := 1\<rparr>)) \<noteq> []
   \<and> pending (exec \<lparr>a_from = Fin 0, a_to = Fin 1000, a_ms = Fin 700, a_fmt = None, a_t0 = Fin 0\<rparr>
       [Frame (Fin 350)] (host0\<lparr>next_id := 2, pending := [1], rafId := 1\<rparr>)) \<noteq> []
   \<and> textContent (exec \<lparr>a_from = Fin 0, a_to = Fin 1000, a_ms = Fin 700, a_fmt = None, a_t0 = Fin 0\<rparr>
       ([] @ [Frame (Fin 700)]) (host0\<lparr>next_id := 2, pending := [1], rafId := 1\<rparr>)) = ''1,000''
   \<and> textContent (exec \<lparr>a_from = Fin 0, a_to = Fin 1000, a_ms = Fin 700, a_fmt = None, a_t0 = Fin 0\<rparr>
       ([Frame (Fin 350)] @ [Frame (Fin 700)]) (host0\<lparr>next_id := 2, pending := [1], rafId := 1\<rparr>))
       = ''1,000''"
proof -
  let ?r = "\<lparr>a_from = Fin 0, a_to = Fin 1000, a_ms = Fin 700, a_fmt = None, a_t0 = Fin 0\<rparr>"
  let ?s = "host0\<lparr>next_id := 2, pending := [1], rafId := 1\<rparr>"
  have p1: "pending (exec ?r [] ?s) \<noteq> []"
    by simp
  have p2: "pending (exec ?r [Frame (Fin 350)] ?s) \<noteq> []"
    by (simp add: run_eval js_eval)
  have t: "text_of ?r (Fin 700) = ''1,000''"
    by (simp add: run_eval js_eval)
  note w = tick_value_by_time [OF p1 p2, of "Fin 700", unfolded t]
  show ?thesis
    using p1 p2 w by blast
qed

text \<open>
  Claim C2 says that the handle which \<^verbatim>\<open>animateNum\<close> returns cancels the tick chain at
  any time before the run is complete. The handle is the one of the first request.
  Cancelling with it before the first frame leaves the element unwritten. After the
  first frame \<^verbatim>\<open>step\<close> has made a new request, whose handle it stores in \<^verbatim>\<open>rafId\<close>;
  the caller never sees it, cancelling with the returned handle changes nothing, and
  the next frame writes. The run evaluated is \<^verbatim>\<open>animateNum(el, 0, 1000, 700)\<close> started
  at time 0, with frames at 350 and 700.
\<close>

theorem animateNum_stale_handle:
  "animateNum (Fin 0) (Fin 1000) (Fin 700) None (Fin 0) host0
     = (1, \<lparr>a_from = Fin 0, a_to = Fin 1000, a_ms = Fin 700, a_fmt = None, a_t0 = Fin 0\<rparr>,
        host0\<lparr>next_id := 2, pending := [1], rafId := 1\<rparr>)
   \<and> writes (exec \<lparr>a_from = Fin 0, a_to = Fin 1000, a_ms = Fin 700, a_fmt = None, a_t0 = Fin 0\<rparr>
        [Cancel 1, Frame (Fin 350), Frame (Fin 700)]
        (host0\<lparr>next_id := 2, pending := [1], rafId := 1\<rparr>)) = []
   \<and> writes (exec \<lparr>a_from = Fin 0, a_to = Fin 1000, a_ms = Fin 700, a_fmt = None, a_t0 = Fin 0\<rparr>
        [Frame (Fin 350), Cancel 1, Frame (Fin 700)]
        (host0\<lparr>next_id := 2, pending := [1], rafId := 1\<rparr>)) = [''938'', ''1,000'']
   \<and> rafId (exec \<lparr>a_from = Fin 0, a_to = Fin 1000, a_ms = Fin 700, a_fmt = None, a_t0 = Fin 0\<rparr>
        [Frame (Fin 350)] (host0\<lparr>next_id := 2, pending := [1], rafId := 1\<rparr>)) = 2
   \<and> writes (exec \<lparr>a_from = Fin 0, a_to = Fin 1000, a_ms = Fin 700, a_fmt = None, a_t0 = Fin 0\<rparr>
        [Frame (Fin 350), Cancel 2, Frame (Fin 700)]
        (host0\<lparr>next_id := 2, pending := [1], rafId := 1\<rparr>)) = [''938'']"
  by (simp add: animateNum_def run_eval js_eval)






end
